theory Spec2Isabelle
  imports Main "HOL-Library.Word" "HOL-Library.Signed_Division" "HOL-Library.Sublist"
begin

section \<open>The Windows launcher glue of \<open>src/launcher/java_md.c\<close>\<close>

text \<open>
  The file locates a Java runtime (next to the executable, in a private \<open>jre\<close>
  directory, or through the registry), builds the path of the VM library, loads it and
  resolves two entry points, and offers an interval timer.

  Modelling decisions:
  \<^item> A C string is the list of its characters before the terminating NUL. A buffer is
    the string it holds together with its capacity: \<open>MAXPATHLEN\<close> for the local
    arrays, the size argument for a buffer of the caller. Where the code tests the
    capacity (\<open>GetStringFromRegistry\<close>) the model does; where it writes unchecked
    (\<open>sprintf\<close>, \<open>strcat\<close>) a string that does not fit is a fault.
  \<^item> The operating system is a record of answers (\<open>os\<close>): what each Win32 or C
    library call returns for its arguments. The code never changes the file system or
    the registry, so these answers are fixed during a call.
  \<^item> What the code reads and changes in the process is a record (\<open>state\<close>): the
    launcher's \<open>debug\<close> flag, the static variables of the timer, the two output
    streams, the registry handles that are open, and a log of the operating system calls
    made, in order.
  \<^item> The release build is modelled (\<open>DEBUG\<close> undefined): \<open>JVM_DLL\<close> is \<open>jvm.dll\<close>
    and \<open>JAVA_DLL\<close> is \<open>java.dll\<close>.
  \<^item> A store through a null pointer, a division by zero and a write past the end of a
    buffer have no defined result; they are values of type \<open>fault\<close>, and the call
    yields nothing else.
\<close>

subsection \<open>Types and constants\<close>

type_synonym jint = "32 word"
type_synonym jlong = "64 word"
type_synonym DWORD = "32 word"
type_synonym HKEY = "32 word"
type_synonym HINSTANCE = "32 word"
type_synonym FARPROC = "32 word"

abbreviation bslash :: char where "bslash \<equiv> CHR 0x5C"
abbreviation newline :: char where "newline \<equiv> CHR 0x0A"
abbreviation tab :: char where "tab \<equiv> CHR 0x09"
abbreviation squote :: char where "squote \<equiv> CHR 0x27"

definition JVM_DLL :: string where "JVM_DLL = ''jvm.dll''"
definition JAVA_DLL :: string where "JAVA_DLL = ''java.dll''"

definition DOTRELEASE :: string where "DOTRELEASE = ''1.3''"
definition JRE_KEY :: string where
  "JRE_KEY = ''Software'' @ bslash # ''JavaSoft'' @ bslash # ''Java Runtime Environment''"

definition HKEY_LOCAL_MACHINE :: HKEY where "HKEY_LOCAL_MACHINE = 0x80000002"
definition REG_SZ :: DWORD where "REG_SZ = 1"

datatype fault = NullDereference | DivideByZero | BufferOverflow

datatype oscall =
    Call_stat string
  | Call_RegOpenKeyEx HKEY string
  | Call_RegQueryValueEx HKEY string
  | Call_RegCloseKey HKEY
  | Call_LoadLibrary string
  | Call_GetProcAddress HINSTANCE string
  | Call_QueryPerformanceFrequency
  | Call_QueryPerformanceCounter

text \<open>
  The answers of the operating system. \<open>MAXPATHLEN\<close> comes from \<open>java.h\<close>, which is
  not part of the sources, and is a parameter here.
  \<^item> \<open>os_GetModuleFileName n\<close>: the string \<open>GetModuleFileName(0, buf, n)\<close> leaves in \<open>buf\<close>;
  \<^item> \<open>os_stat p\<close>: the return value of \<open>stat(p, &s)\<close>;
  \<^item> \<open>os_RegOpenKeyEx k sub\<close>: the handle stored when \<open>RegOpenKeyEx\<close> returns 0, else \<open>None\<close>;
  \<^item> \<open>os_RegQueryValueEx_info k name\<close>: type and size stored when the query without a
    data buffer returns 0;
  \<^item> \<open>os_RegQueryValueEx_data k name\<close>: the string left in the buffer when the query with a
    data buffer returns 0;
  \<^item> \<open>os_LoadLibrary p\<close>, \<open>os_GetProcAddress h name\<close>: the handle or address, 0 for failure;
  \<^item> \<open>os_QueryPerformanceFrequency\<close>: the return value and the frequency stored;
  \<^item> \<open>os_QueryPerformanceCounter n\<close>: the count stored by the query that follows \<open>n\<close>
    earlier ones.
\<close>

record os =
  MAXPATHLEN :: jint
  os_GetModuleFileName :: "jint \<Rightarrow> string"
  os_stat :: "string \<Rightarrow> int"
  os_RegOpenKeyEx :: "HKEY \<Rightarrow> string \<Rightarrow> HKEY option"
  os_RegQueryValueEx_info :: "HKEY \<Rightarrow> string \<Rightarrow> (DWORD \<times> DWORD) option"
  os_RegQueryValueEx_data :: "HKEY \<Rightarrow> string \<Rightarrow> string option"
  os_LoadLibrary :: "string \<Rightarrow> HINSTANCE"
  os_GetProcAddress :: "HINSTANCE \<Rightarrow> string \<Rightarrow> FARPROC"
  os_QueryPerformanceFrequency :: "bool \<times> jlong"
  os_QueryPerformanceCounter :: "nat \<Rightarrow> jlong"

record state =
  debug :: bool
  counterAvailable :: bool
  counterInitialized :: bool
  counterFrequency :: jlong
  stdout :: string
  stderr :: string
  open_keys :: "HKEY list"
  calls :: "oscall list"

record InvocationFunctions =
  CreateJavaVM :: FARPROC
  GetDefaultJavaVMInitArgs :: FARPROC

subsection \<open>Library calls\<close>

definition printf :: "string \<Rightarrow> state \<Rightarrow> state" where
  "printf msg s = s\<lparr>stdout := stdout s @ msg\<rparr>"

definition fprintf_stderr :: "string \<Rightarrow> state \<Rightarrow> state" where
  "fprintf_stderr msg s = s\<lparr>stderr := stderr s @ msg\<rparr>"

definition logcall :: "oscall \<Rightarrow> state \<Rightarrow> state" where
  "logcall c s = s\<lparr>calls := calls s @ [c]\<rparr>"

text \<open>\<open>strrchr(s, c)\<close> for a character \<open>c\<close> other than NUL: the index of the last
  occurrence, \<open>None\<close> for the null pointer.\<close>

fun strrchr :: "string \<Rightarrow> char \<Rightarrow> nat option" where
  "strrchr [] c = None"
| "strrchr (x # xs) c =
     (case strrchr xs c of
        Some i \<Rightarrow> Some (Suc i)
      | None \<Rightarrow> if x = c then Some 0 else None)"



subsection \<open>\<open>GetApplicationHome\<close>\<close>

text \<open>The result is the return value and the contents of \<open>buf\<close>. The first
  \<open>strrchr\<close> is dereferenced unchecked.\<close>

definition GetApplicationHome :: "os \<Rightarrow> jint \<Rightarrow> fault + (bool \<times> string)" where
  "GetApplicationHome os bufsize =
     (let buf = os_GetModuleFileName os bufsize in
      case strrchr buf bslash of
        None \<Rightarrow> Inl NullDereference
      | Some i \<Rightarrow>
          (let buf = take i buf in
           case strrchr buf bslash of
             None \<Rightarrow> Inr (False, [])
           | Some cp \<Rightarrow> Inr (True, take cp buf)))"

subsection \<open>\<open>GetJVMPath\<close>\<close>


subsection \<open>\<open>LoadJavaVM\<close>\<close>

definition LoadLibrary :: "os \<Rightarrow> string \<Rightarrow> state \<Rightarrow> HINSTANCE \<times> state" where
  "LoadLibrary os p s = (os_LoadLibrary os p, logcall (Call_LoadLibrary p) s)"

definition GetProcAddress :: "os \<Rightarrow> HINSTANCE \<Rightarrow> string \<Rightarrow> state \<Rightarrow> FARPROC \<times> state" where
  "GetProcAddress os h name s =
     (os_GetProcAddress os h name, logcall (Call_GetProcAddress h name) s)"

definition missing_symbols_message :: "string \<Rightarrow> string" where
  "missing_symbols_message jvmpath =
     ''Error: can'' @ squote # ''t find JNI interfaces in: '' @ jvmpath @ [newline]"

text \<open>The result is the return value and the caller's table \<open>*ifn\<close> after the call.\<close>

definition LoadJavaVM ::
  "os \<Rightarrow> string \<Rightarrow> InvocationFunctions \<Rightarrow> state \<Rightarrow> (bool \<times> InvocationFunctions) \<times> state" where
  "LoadJavaVM os jvmpath ifn s =
     (let s0 = (if debug s then printf (''JVM path is '' @ jvmpath @ [newline]) s else s);
          (handle, s1) = LoadLibrary os jvmpath s0
      in if handle = 0
         then ((False, ifn), fprintf_stderr (''Error loading: '' @ jvmpath @ [newline]) s1)
         else
           (let (create, s2) = GetProcAddress os handle ''JNI_CreateJavaVM'' s1;
                ifn1 = ifn\<lparr>CreateJavaVM := create\<rparr>;
                (args, s3) = GetProcAddress os handle ''JNI_GetDefaultJavaVMInitArgs'' s2;
                ifn2 = ifn1\<lparr>GetDefaultJavaVMInitArgs := args\<rparr>
            in if CreateJavaVM ifn2 = 0 \<or> GetDefaultJavaVMInitArgs ifn2 = 0
               then ((False, ifn2), fprintf_stderr (missing_symbols_message jvmpath) s3)
               else ((True, ifn2), s3)))"

subsection \<open>The registry probe\<close>

definition RegOpenKeyEx :: "os \<Rightarrow> HKEY \<Rightarrow> string \<Rightarrow> state \<Rightarrow> HKEY option \<times> state" where
  "RegOpenKeyEx os k sub s =
     (let s1 = logcall (Call_RegOpenKeyEx k sub) s in
      case os_RegOpenKeyEx os k sub of
        None \<Rightarrow> (None, s1)
      | Some h \<Rightarrow> (Some h, s1\<lparr>open_keys := h # open_keys s1\<rparr>))"

definition RegCloseKey :: "HKEY \<Rightarrow> state \<Rightarrow> state" where
  "RegCloseKey h s = (logcall (Call_RegCloseKey h) s)\<lparr>open_keys := remove1 h (open_keys s)\<rparr>"

text \<open>\<open>Some b\<close> stands for \<open>JNI_TRUE\<close> with \<open>b\<close> left in \<open>buf\<close>, \<open>None\<close> for
  \<open>JNI_FALSE\<close>. The comparison of \<open>size\<close> (here \<open>sz\<close>) with
  \<open>(unsigned int)bufsize\<close> is unsigned, as \<open><\<close> on words is.\<close>

definition GetStringFromRegistry ::
  "os \<Rightarrow> HKEY \<Rightarrow> string \<Rightarrow> jint \<Rightarrow> state \<Rightarrow> string option \<times> state" where
  "GetStringFromRegistry os key name bufsize s =
     (let s1 = logcall (Call_RegQueryValueEx key name) s in
      case os_RegQueryValueEx_info os key name of
        None \<Rightarrow> (None, s1)
      | Some (ty, sz) \<Rightarrow>
          if ty = REG_SZ \<and> sz < bufsize
          then
            (let s2 = logcall (Call_RegQueryValueEx key name) s1 in
             case os_RegQueryValueEx_data os key name of
               Some buf \<Rightarrow> (Some buf, s2)
             | None \<Rightarrow> (None, s2))
          else (None, s1))"

definition version_mismatch_message :: "string \<Rightarrow> string" where
  "version_mismatch_message version =
     ''Registry key '' @ squote # JRE_KEY @ bslash # ''CurrentVersion'' @ squote # newline #
     ''has value '' @ squote # version @ squote # '', but '' @ squote # DOTRELEASE @
     squote # '' is required.'' @ [newline]"

text \<open>\<open>Some home\<close> stands for \<open>JNI_TRUE\<close> with \<open>home\<close> left in \<open>buf\<close>.\<close>

definition GetPublicJREHome :: "os \<Rightarrow> jint \<Rightarrow> state \<Rightarrow> string option \<times> state" where
  "GetPublicJREHome os bufsize s =
     (case RegOpenKeyEx os HKEY_LOCAL_MACHINE JRE_KEY s of
        (None, s1) \<Rightarrow>
          (None,
           fprintf_stderr
             (''Error opening registry key '' @ squote # JRE_KEY @ squote # [newline]) s1)
      | (Some key, s1) \<Rightarrow>
          (case GetStringFromRegistry os key ''CurrentVersion'' (MAXPATHLEN os) s1 of
             (None, s2) \<Rightarrow>
               (None,
                RegCloseKey key
                  (fprintf_stderr
                     (''Failed reading value of registry key:'' @ newline # tab #
                      JRE_KEY @ bslash # ''CurrentVersion'' @ [newline]) s2))
           | (Some version, s2) \<Rightarrow>
               if version \<noteq> DOTRELEASE
               then (None, RegCloseKey key (fprintf_stderr (version_mismatch_message version) s2))
               else
                 (case RegOpenKeyEx os key version s2 of
                    (None, s3) \<Rightarrow>
                      (None,
                       RegCloseKey key
                         (fprintf_stderr
                            (''Error opening registry key '' @ squote # JRE_KEY @ bslash #
                             version @ squote # [newline]) s3))
                  | (Some subkey, s3) \<Rightarrow>
                      (case GetStringFromRegistry os subkey ''JavaHome'' bufsize s3 of
                         (None, s4) \<Rightarrow>
                           (None,
                            RegCloseKey subkey
                              (RegCloseKey key
                                 (fprintf_stderr
                                    (''Failed reading value of registry key:'' @ newline # tab #
                                     JRE_KEY @ bslash # version @ bslash # ''JavaHome'' @
                                     [newline]) s4)))
                       | (Some buf, s4) \<Rightarrow>
                           (let s5 =
                              (if debug s4
                               then
                                 (case GetStringFromRegistry os subkey ''MicroVersion''
                                         (MAXPATHLEN os) s4 of
                                    (None, t) \<Rightarrow>
                                      printf (''Version major.minor.micro = '' @ version @
                                              ''.'' @ [] @ [newline])
                                        (printf (''Warning: Can'' @ squote #
                                                 ''t read MicroVersion'' @ [newline]) t)
                                  | (Some micro, t) \<Rightarrow>
                                      printf (''Version major.minor.micro = '' @ version @
                                              ''.'' @ micro @ [newline]) t)
                               else s4)
                            in (Some buf, RegCloseKey subkey (RegCloseKey key s5)))))))"

subsection \<open>\<open>GetJREPath\<close>\<close>




subsection \<open>The interval timer\<close>

definition CounterGet :: "os \<Rightarrow> state \<Rightarrow> jlong \<times> state" where
  "CounterGet os s =
     (let s1 =
        (if \<not> counterInitialized s
         then (logcall Call_QueryPerformanceFrequency s)
                \<lparr>counterAvailable := fst (os_QueryPerformanceFrequency os),
                 counterFrequency := snd (os_QueryPerformanceFrequency os),
                 counterInitialized := True\<rparr>
         else s)
      in if \<not> counterAvailable s1 then (0, s1)
         else (os_QueryPerformanceCounter os
                 (count_list (calls s1) Call_QueryPerformanceCounter),
               logcall Call_QueryPerformanceCounter s1))"

text \<open>The arithmetic is that of 64-bit two's complement: the product wraps and the
  quotient is rounded towards zero (\<open>sdiv\<close> on the signed values; the one quotient
  that does not fit, that of the least value by -1, is taken modulo \<open>2\<^sup>6\<^sup>4\<close>). A zero
  divisor stops the process.\<close>

definition jlong_div :: "jlong \<Rightarrow> jlong \<Rightarrow> jlong" where
  "jlong_div a b = word_of_int (sint a sdiv sint b)"

definition Counter2Micros :: "state \<Rightarrow> jlong \<Rightarrow> fault + jlong" where
  "Counter2Micros s counts =
     (if \<not> counterAvailable s \<or> \<not> counterInitialized s then Inr 0
      else if counterFrequency s = 0 then Inl DivideByZero
      else Inr (jlong_div (counts * 1000 * 1000) (counterFrequency s)))"

text \<open>A caller's sequence of timer calls, run from a state. Each call's outcome is
  recorded; a fault is the last outcome, since the process ends there.\<close>

datatype timer_call = Do_CounterGet | Do_Counter2Micros jlong

fun run_timer :: "os \<Rightarrow> timer_call list \<Rightarrow> state \<Rightarrow> (fault + jlong) list \<times> state" where
  "run_timer os [] s = ([], s)"
| "run_timer os (Do_CounterGet # cs) s =
     (let (r, s1) = CounterGet os s; (rs, s2) = run_timer os cs s1 in (Inr r # rs, s2))"
| "run_timer os (Do_Counter2Micros n # cs) s =
     (case Counter2Micros s n of
        Inl f \<Rightarrow> ([Inl f], s)
      | Inr r \<Rightarrow> (let (rs, s2) = run_timer os cs s in (Inr r # rs, s2)))"

subsection \<open>Path segments\<close>

text \<open>The segments of a path are the pieces between backslashes; the last one is the
  file name. \<open>join_path\<close> puts segments together again.\<close>

fun split_path :: "string \<Rightarrow> string list" where
  "split_path [] = [[]]"
| "split_path (x # xs) =
     (if x = bslash then [] # split_path xs
      else (case split_path xs of [] \<Rightarrow> [[x]] | y # ys \<Rightarrow> (x # y) # ys))"

fun join_path :: "string list \<Rightarrow> string" where
  "join_path [] = []"
| "join_path [x] = x"
| "join_path (x # y # ys) = x @ bslash # join_path (y # ys)"

definition segments_before_name :: "string \<Rightarrow> string list" where
  "segments_before_name p = butlast (split_path p)"

subsection \<open>Observations on the log\<close>


definition frequency_queries :: "state \<Rightarrow> nat" where
  "frequency_queries s = count_list (calls s) Call_QueryPerformanceFrequency"

subsection \<open>Example environments\<close>

text \<open>\<open>os_none\<close> is a machine on which every query fails; \<open>state0\<close> is the state of
  a fresh process. The \<open>with_\<close> functions add an executable path, a file, a registered
  runtime, a loadable library, a counter frequency and a counter.\<close>

definition os_none :: os where
  "os_none =
     \<lparr>MAXPATHLEN = 260,
      os_GetModuleFileName = (\<lambda>n. []),
      os_stat = (\<lambda>p. - 1),
      os_RegOpenKeyEx = (\<lambda>k sub. None),
      os_RegQueryValueEx_info = (\<lambda>k name. None),
      os_RegQueryValueEx_data = (\<lambda>k name. None),
      os_LoadLibrary = (\<lambda>p. 0),
      os_GetProcAddress = (\<lambda>h name. 0),
      os_QueryPerformanceFrequency = (False, 0),
      os_QueryPerformanceCounter = (\<lambda>n. 0)\<rparr>"

definition state0 :: state where
  "state0 =
     \<lparr>debug = False, counterAvailable = False, counterInitialized = False,
      counterFrequency = 0, stdout = [], stderr = [], open_keys = [], calls = []\<rparr>"

definition with_exe :: "string \<Rightarrow> os \<Rightarrow> os" where
  "with_exe p os = os\<lparr>os_GetModuleFileName := (\<lambda>n. p)\<rparr>"

definition with_file :: "string \<Rightarrow> os \<Rightarrow> os" where
  "with_file p os = os\<lparr>os_stat := (\<lambda>q. if q = p then 0 else os_stat os q)\<rparr>"

definition with_registry :: "string \<Rightarrow> string \<Rightarrow> os \<Rightarrow> os" where
  "with_registry version home os =
     os\<lparr>os_RegOpenKeyEx :=
          (\<lambda>k sub. if k = HKEY_LOCAL_MACHINE \<and> sub = JRE_KEY then Some 1
                    else if k = 1 \<and> sub = version then Some 2 else None),
        os_RegQueryValueEx_info :=
          (\<lambda>k name. if k = 1 \<and> name = ''CurrentVersion''
                        then Some (REG_SZ, of_nat (Suc (length version)))
                      else if k = 2 \<and> name = ''JavaHome''
                        then Some (REG_SZ, of_nat (Suc (length home)))
                      else None),
        os_RegQueryValueEx_data :=
          (\<lambda>k name. if k = 1 \<and> name = ''CurrentVersion'' then Some version
                      else if k = 2 \<and> name = ''JavaHome'' then Some home
                      else None)\<rparr>"

definition with_library :: "string \<Rightarrow> FARPROC \<Rightarrow> FARPROC \<Rightarrow> os \<Rightarrow> os" where
  "with_library p create args os =
     os\<lparr>os_LoadLibrary := (\<lambda>q. if q = p then 0x10000000 else os_LoadLibrary os q),
        os_GetProcAddress :=
          (\<lambda>h name. if h = 0x10000000 \<and> name = ''JNI_CreateJavaVM'' then create
                      else if h = 0x10000000 \<and> name = ''JNI_GetDefaultJavaVMInitArgs'' then args
                      else os_GetProcAddress os h name)\<rparr>"

definition with_frequency :: "bool \<Rightarrow> jlong \<Rightarrow> os \<Rightarrow> os" where
  "with_frequency ok f os = os\<lparr>os_QueryPerformanceFrequency := (ok, f)\<rparr>"

definition with_ticking_counter :: "jlong \<Rightarrow> os \<Rightarrow> os" where
  "with_ticking_counter step os = os\<lparr>os_QueryPerformanceCounter := (\<lambda>n. step * of_nat n)\<rparr>"

definition foo_home :: string where
  "foo_home = ''C:'' @ bslash # ''apps'' @ bslash # ''foo''"

definition foo_exe :: string where
  "foo_exe = foo_home @ bslash # ''bin'' @ bslash # ''java.exe''"

definition foo_java_dll :: string where
  "foo_java_dll = foo_home @ bslash # ''bin'' @ bslash # ''java.dll''"

definition foo_jre_java_dll :: string where
  "foo_jre_java_dll = foo_home @ bslash # ''jre'' @ bslash # ''bin'' @ bslash # ''java.dll''"

definition foo_jvm :: string where
  "foo_jvm = foo_home @ bslash # ''bin'' @ bslash # ''client'' @ bslash # ''jvm.dll''"

definition public_home :: string where
  "public_home = ''C:'' @ bslash # ''Program Files'' @ bslash # ''JavaSoft'' @ bslash # ''JRE''"

definition root_exe :: string where
  "root_exe = ''C:'' @ bslash # ''java.exe''"




text \<open>A machine whose executable has a path of 257 characters, with no local runtime
  and a registered public one; and a registered home of 250 characters with its VM
  library.\<close>

definition long_home :: string where
  "long_home = ''C:'' @ bslash # replicate 241 (CHR ''a'')"

definition long_exe :: string where
  "long_exe = long_home @ bslash # ''bin'' @ bslash # ''java.exe''"

definition long_path_os :: os where
  "long_path_os = with_exe long_exe (with_registry ''1.3'' public_home os_none)"

definition long_public_home :: string where
  "long_public_home = ''C:'' @ bslash # replicate 247 (CHR ''a'')"

definition long_jvm :: string where
  "long_jvm = long_public_home @ bslash # ''bin'' @ bslash # ''client'' @ bslash # ''jvm.dll''"

definition empty_table :: InvocationFunctions where
  "empty_table = \<lparr>CreateJavaVM = 0, GetDefaultJavaVMInitArgs = 0\<rparr>"

text \<open>The state after the first \<open>CounterGet\<close> of a process whose counter has
  frequency \<open>f\<close>.\<close>

definition calibrated :: "jlong \<Rightarrow> state" where
  "calibrated f = snd (CounterGet (with_frequency True f os_none) state0)"

section \<open>Properties\<close>

lemmas example_defs = os_none_def state0_def with_exe_def with_file_def with_registry_def
  with_library_def with_frequency_def with_ticking_counter_def foo_home_def foo_exe_def
  foo_java_dll_def foo_jre_java_dll_def foo_jvm_def public_home_def root_exe_def
  long_home_def long_exe_def long_path_os_def long_public_home_def long_jvm_def
  empty_table_def JVM_DLL_def JAVA_DLL_def DOTRELEASE_def JRE_KEY_def
  HKEY_LOCAL_MACHINE_def REG_SZ_def

subsection \<open>Path segments and \<open>strrchr\<close>\<close>

lemma split_path_nonempty: "split_path p \<noteq> []"
  by (induction p) (auto split: list.splits)

lemma split_path_no_bslash: "bslash \<notin> set t \<Longrightarrow> split_path t = [t]"
  by (induction t) auto

lemma split_path_append: "split_path (h @ bslash # t) = split_path h @ split_path t"
proof (induction h)
  case Nil
  show ?case by simp
next
  case (Cons x h)
  then show ?case using split_path_nonempty [of h] by (auto split: list.splits)
qed

lemma join_split: "join_path (split_path p) = p"
proof (induction p)
  case Nil
  show ?case by simp
next
  case (Cons x p)
  show ?case
  proof (cases "split_path p")
    case Nil
    then show ?thesis using split_path_nonempty by blast
  next
    case (Cons y ys)
    with Cons.IH show ?thesis by (cases ys) auto
  qed
qed

lemma length_split_path: "length (split_path p) = Suc (count_list p bslash)"
  using split_path_nonempty by (induction p) (auto split: list.splits)

lemma strrchr_None: "strrchr s c = None \<longleftrightarrow> c \<notin> set s"
  by (induction s) (auto split: option.splits)

lemma strrchr_Some:
  "strrchr s c = Some i \<Longrightarrow> s = take i s @ c # drop (Suc i) s \<and> c \<notin> set (drop (Suc i) s)"
proof (induction s arbitrary: i)
  case Nil
  then show ?case by simp
next
  case (Cons x s)
  then show ?case by (auto split: option.splits if_splits simp: strrchr_None)
qed

lemma strrchr_split:
  assumes "strrchr s bslash = Some i"
  shows "split_path (take i s) = butlast (split_path s)"
proof -
  from strrchr_Some [OF assms] have eq: "s = take i s @ bslash # drop (Suc i) s"
    and no: "bslash \<notin> set (drop (Suc i) s)" by simp_all
  have "split_path s = split_path (take i s) @ [drop (Suc i) s]"
    using split_path_append [of "take i s" "drop (Suc i) s"] eq split_path_no_bslash [OF no]
    by simp
  then show ?thesis by simp
qed

text \<open>What \<open>GetApplicationHome\<close> does, by the number of segments before the file name.\<close>

lemma GetApplicationHome_by_segments:
  fixes os bufsize
  defines "p \<equiv> os_GetModuleFileName os bufsize"
  shows "(2 \<le> length (butlast (split_path p)) \<longrightarrow>
            GetApplicationHome os bufsize =
              Inr (True, join_path (butlast (butlast (split_path p)))))
       \<and> (length (butlast (split_path p)) = 1 \<longrightarrow>
            GetApplicationHome os bufsize = Inr (False, []))
       \<and> (length (butlast (split_path p)) = 0 \<longrightarrow>
            GetApplicationHome os bufsize = Inl NullDereference)"
proof (cases "strrchr p bslash")
  case None
  then have "split_path p = [p]" by (simp add: strrchr_None split_path_no_bslash)
  moreover from None have "GetApplicationHome os bufsize = Inl NullDereference"
    by (simp add: GetApplicationHome_def p_def)
  ultimately show ?thesis by simp
next
  case (Some i)
  note first = strrchr_split [OF Some]
  show ?thesis
  proof (cases "strrchr (take i p) bslash")
    case None
    then have "split_path (take i p) = [take i p]"
      by (simp add: strrchr_None split_path_no_bslash)
    with first have "butlast (split_path p) = [take i p]" by simp
    then have len: "length (butlast (split_path p)) = 1" by (simp only: list.size)
    from None Some have "GetApplicationHome os bufsize = Inr (False, [])"
      by (simp add: GetApplicationHome_def p_def [symmetric])
    with len show ?thesis by simp
  next
    case (Some j)
    from strrchr_split [OF Some] first
    have two: "split_path (take j (take i p)) = butlast (butlast (split_path p))" by simp
    have "bslash \<in> set (take i p)" using Some strrchr_None [of "take i p" bslash] by auto
    then have "count_list (take i p) bslash \<noteq> 0" by (simp add: count_list_0_iff)
    then have "2 \<le> length (split_path (take i p))"
      by (simp add: length_split_path)
    then have len: "2 \<le> length (butlast (split_path p))"
      by (simp only: first)
    have "join_path (butlast (butlast (split_path p))) = take j (take i p)"
      using two join_split [of "take j (take i p)"] by simp
    with Some \<open>strrchr p bslash = Some i\<close>
    have "GetApplicationHome os bufsize =
            Inr (True, join_path (butlast (butlast (split_path p))))"
      by (simp add: GetApplicationHome_def p_def [symmetric])
    with len show ?thesis by simp
  qed
qed

subsection \<open>Effects of the library calls\<close>

lemma open_keys_logcall: "open_keys (logcall c s) = open_keys s"
  by (simp add: logcall_def)

lemma open_keys_printf: "open_keys (printf m s) = open_keys s"
  by (simp add: printf_def)

lemma open_keys_fprintf_stderr: "open_keys (fprintf_stderr m s) = open_keys s"
  by (simp add: fprintf_stderr_def)

lemma open_keys_RegCloseKey: "open_keys (RegCloseKey h s) = remove1 h (open_keys s)"
  by (simp add: RegCloseKey_def logcall_def)

lemma fst_RegOpenKeyEx: "fst (RegOpenKeyEx os k sub s) = os_RegOpenKeyEx os k sub"
  by (simp add: RegOpenKeyEx_def Let_def split: option.splits)

lemma open_keys_RegOpenKeyEx:
  "open_keys (snd (RegOpenKeyEx os k sub s)) =
     (case os_RegOpenKeyEx os k sub of None \<Rightarrow> open_keys s | Some h \<Rightarrow> h # open_keys s)"
  by (simp add: RegOpenKeyEx_def Let_def logcall_def split: option.splits)

lemma open_keys_GetStringFromRegistry:
  "open_keys (snd (GetStringFromRegistry os key name n s)) = open_keys s"
  by (simp add: GetStringFromRegistry_def Let_def logcall_def split: option.splits)

lemmas open_keys_simps = open_keys_logcall open_keys_printf open_keys_fprintf_stderr
  open_keys_RegCloseKey fst_RegOpenKeyEx open_keys_RegOpenKeyEx open_keys_GetStringFromRegistry












lemma GetStringFromRegistry_Some:
  assumes "os_RegQueryValueEx_info os key name = Some (REG_SZ, sz)" and "sz < bufsize"
    and "os_RegQueryValueEx_data os key name = Some v"
  shows "GetStringFromRegistry os key name bufsize s =
           (Some v,
            logcall (Call_RegQueryValueEx key name) (logcall (Call_RegQueryValueEx key name) s))"
  using assms by (simp add: GetStringFromRegistry_def Let_def)





lemma LoadJavaVM_mapped:
  "os_LoadLibrary os jvmpath \<noteq> 0 \<Longrightarrow>
   LoadJavaVM os jvmpath ifn s =
     (let h = os_LoadLibrary os jvmpath;
          create = os_GetProcAddress os h ''JNI_CreateJavaVM'';
          args = os_GetProcAddress os h ''JNI_GetDefaultJavaVMInitArgs'';
          s3 = logcall (Call_GetProcAddress h ''JNI_GetDefaultJavaVMInitArgs'')
                 (logcall (Call_GetProcAddress h ''JNI_CreateJavaVM'')
                    (logcall (Call_LoadLibrary jvmpath)
                       (if debug s then printf (''JVM path is '' @ jvmpath @ [newline]) s
                        else s)))
      in if create = 0 \<or> args = 0
         then ((False, ifn\<lparr>CreateJavaVM := create, GetDefaultJavaVMInitArgs := args\<rparr>),
               fprintf_stderr (missing_symbols_message jvmpath) s3)
         else ((True, ifn\<lparr>CreateJavaVM := create, GetDefaultJavaVMInitArgs := args\<rparr>), s3))"
  by (simp add: LoadJavaVM_def LoadLibrary_def GetProcAddress_def Let_def)

subsection \<open>Runtime home discovery\<close>







text \<open>
  Claim C5. The path of the executable is what \<open>GetModuleFileName\<close> leaves in the
  buffer: a fully qualified path, so it holds a backslash and there is a segment before
  the file name. Such a path with at least two segments before the file name loses
  exactly its last two segments (the file name and the directory holding it) and
  \<open>GetApplicationHome\<close> succeeds; with fewer than two it yields the empty string and
  failure.
\<close>

theorem GetApplicationHome_segment_boundary:
  assumes "bslash \<in> set (os_GetModuleFileName os bufsize)"
  shows "(2 \<le> length (segments_before_name (os_GetModuleFileName os bufsize)) \<longrightarrow>
      GetApplicationHome os bufsize =
        Inr (True, join_path (butlast (segments_before_name (os_GetModuleFileName os bufsize)))))
   \<and> (length (segments_before_name (os_GetModuleFileName os bufsize)) < 2 \<longrightarrow>
      GetApplicationHome os bufsize = Inr (False, []))"
proof -
  from assms have "count_list (os_GetModuleFileName os bufsize) bslash \<noteq> 0"
    by (simp add: count_list_0_iff)
  then have "length (butlast (split_path (os_GetModuleFileName os bufsize))) \<noteq> 0"
    by (simp add: length_split_path)
  then have "length (butlast (split_path (os_GetModuleFileName os bufsize))) < 2 \<longrightarrow>
             length (butlast (split_path (os_GetModuleFileName os bufsize))) = 1"
    by linarith
  with GetApplicationHome_by_segments [of os bufsize] show ?thesis
    unfolding segments_before_name_def by blast
qed

theorem GetApplicationHome_segment_boundary_witness:
  "segments_before_name foo_exe = [''C:'', ''apps'', ''foo'', ''bin'']
   \<and> GetApplicationHome (with_exe foo_exe os_none) 260 = Inr (True, foo_home)
   \<and> segments_before_name root_exe = [''C:'']
   \<and> GetApplicationHome (with_exe root_exe os_none) 260 = Inr (False, [])"
proof -
  have q: "bslash \<in> set (os_GetModuleFileName (with_exe foo_exe os_none) 260)"
    "bslash \<in> set (os_GetModuleFileName (with_exe root_exe os_none) 260)"
    by (simp_all add: example_defs)
  from GetApplicationHome_segment_boundary [OF q(1)]
    GetApplicationHome_segment_boundary [OF q(2)]
  show ?thesis by (simp add: segments_before_name_def example_defs)
qed

text \<open>A buffer without any backslash is not a path of an executable. There the first
  \<open>strrchr\<close> yields the null pointer and the store through it is a fault.\<close>

lemma GetApplicationHome_no_backslash:
  "bslash \<notin> set (os_GetModuleFileName os bufsize) \<Longrightarrow>
   GetApplicationHome os bufsize = Inl NullDereference"
  by (simp add: GetApplicationHome_def strrchr_None [THEN iffD2])

subsection \<open>The VM library\<close>




text \<open>
  Claim C3. When the library is mapped but a required entry point is missing (in
  particular when both \<open>JNI_CreateJavaVM\<close> and \<open>JNI_GetDefaultJavaVMInitArgs\<close> are),
  \<open>LoadJavaVM\<close> returns \<open>JNI_FALSE\<close> and appends the message naming the path to the
  standard error stream.
\<close>

theorem LoadJavaVM_missing_symbols:
  assumes "os_LoadLibrary os jvmpath \<noteq> 0"
    and "os_GetProcAddress os (os_LoadLibrary os jvmpath) ''JNI_CreateJavaVM'' = 0
         \<or> os_GetProcAddress os (os_LoadLibrary os jvmpath) ''JNI_GetDefaultJavaVMInitArgs'' = 0"
  shows "fst (fst (LoadJavaVM os jvmpath ifn s)) = False
       \<and> stderr (snd (LoadJavaVM os jvmpath ifn s)) =
           stderr s @ ''Error: can'' @ squote # ''t find JNI interfaces in: '' @ jvmpath @
           [newline]"
  using assms
  by (auto simp: LoadJavaVM_mapped Let_def fprintf_stderr_def logcall_def printf_def
        missing_symbols_message_def)

theorem LoadJavaVM_missing_symbols_witness:
  "os_LoadLibrary (with_library foo_jvm 0 0 os_none) foo_jvm \<noteq> 0
   \<and> fst (fst (LoadJavaVM (with_library foo_jvm 0 0 os_none) foo_jvm empty_table state0)) = False
   \<and> stderr (snd (LoadJavaVM (with_library foo_jvm 0 0 os_none) foo_jvm empty_table state0)) =
       ''Error: can'' @ squote # ''t find JNI interfaces in: '' @ foo_jvm @ [newline]"
proof -
  have mapped: "os_LoadLibrary (with_library foo_jvm 0 0 os_none) foo_jvm \<noteq> 0"
    by (simp add: with_library_def)
  have missing:
    "os_GetProcAddress (with_library foo_jvm 0 0 os_none)
       (os_LoadLibrary (with_library foo_jvm 0 0 os_none) foo_jvm) ''JNI_CreateJavaVM'' = 0
     \<or> os_GetProcAddress (with_library foo_jvm 0 0 os_none)
       (os_LoadLibrary (with_library foo_jvm 0 0 os_none) foo_jvm)
       ''JNI_GetDefaultJavaVMInitArgs'' = 0"
    by (simp add: with_library_def)
  from LoadJavaVM_missing_symbols [OF mapped missing, of empty_table state0] mapped
  show ?thesis by (simp add: state0_def)
qed

text \<open>
  Claim C10. Once the library is mapped, \<open>LoadJavaVM\<close> stores the results of both
  lookups in the caller's table before it tests them, whatever it then returns. So on
  the missing-symbols path the table has been overwritten, and can hold one resolved
  address and one null. (When the library is not mapped the table is left as it was.)
\<close>

theorem LoadJavaVM_table_written:
  "(os_LoadLibrary os jvmpath \<noteq> 0 \<longrightarrow>
      snd (fst (LoadJavaVM os jvmpath ifn s)) =
        ifn\<lparr>CreateJavaVM :=
               os_GetProcAddress os (os_LoadLibrary os jvmpath) ''JNI_CreateJavaVM'',
             GetDefaultJavaVMInitArgs :=
               os_GetProcAddress os (os_LoadLibrary os jvmpath)
                 ''JNI_GetDefaultJavaVMInitArgs''\<rparr>)
   \<and> (os_LoadLibrary os jvmpath = 0 \<longrightarrow> snd (fst (LoadJavaVM os jvmpath ifn s)) = ifn)"
proof (cases "os_LoadLibrary os jvmpath = 0")
  case True
  then show ?thesis by (simp add: LoadJavaVM_def LoadLibrary_def Let_def)
next
  case False
  then show ?thesis by (simp add: LoadJavaVM_mapped Let_def)
qed

theorem LoadJavaVM_table_written_witness:
  "os_LoadLibrary (with_library foo_jvm 0x6D801000 0 os_none) foo_jvm \<noteq> 0
   \<and> fst (LoadJavaVM (with_library foo_jvm 0x6D801000 0 os_none) foo_jvm empty_table state0) =
       (False, \<lparr>CreateJavaVM = 0x6D801000, GetDefaultJavaVMInitArgs = 0\<rparr>)"
proof -
  have mapped: "os_LoadLibrary (with_library foo_jvm 0x6D801000 0 os_none) foo_jvm \<noteq> 0"
    by (simp add: with_library_def)
  have ret: "fst (fst (LoadJavaVM (with_library foo_jvm 0x6D801000 0 os_none) foo_jvm
                         empty_table state0)) = False"
    using mapped by (simp add: LoadJavaVM_mapped Let_def with_library_def)
  from LoadJavaVM_table_written
         [of "with_library foo_jvm 0x6D801000 0 os_none" foo_jvm empty_table state0]
    mapped ret
  show ?thesis by (simp add: prod_eq_iff with_library_def empty_table_def)
qed

subsection \<open>The registry probe\<close>

text \<open>
  Claim C4. When the root key opens and \<open>CurrentVersion\<close> is read as a string that is
  not exactly \<open>1.3\<close>, \<open>GetPublicJREHome\<close> returns \<open>JNI_FALSE\<close>. It reports the value
  found and the value required on the standard error stream, closes the root key, and
  never opens the child key: the calls made are the opening of the root key, the two
  queries of \<open>CurrentVersion\<close> and the closing of the root key.
\<close>

theorem GetPublicJREHome_version_mismatch:
  assumes "os_RegOpenKeyEx os HKEY_LOCAL_MACHINE JRE_KEY = Some key"
    and "os_RegQueryValueEx_info os key ''CurrentVersion'' = Some (REG_SZ, sz)"
    and "sz < MAXPATHLEN os"
    and "os_RegQueryValueEx_data os key ''CurrentVersion'' = Some version"
    and "version \<noteq> ''1.3''"
  shows "GetPublicJREHome os bufsize s =
           (None,
            s\<lparr>stderr := stderr s @
                ''Registry key '' @ squote # JRE_KEY @ bslash # ''CurrentVersion'' @ squote #
                newline # ''has value '' @ squote # version @ squote # '', but '' @ squote #
                ''1.3'' @ squote # '' is required.'' @ [newline],
              calls := calls s @
                [Call_RegOpenKeyEx HKEY_LOCAL_MACHINE JRE_KEY,
                 Call_RegQueryValueEx key ''CurrentVersion'',
                 Call_RegQueryValueEx key ''CurrentVersion'',
                 Call_RegCloseKey key]\<rparr>)"
  using assms
  by (simp add: GetPublicJREHome_def RegOpenKeyEx_def Let_def GetStringFromRegistry_Some
        DOTRELEASE_def RegCloseKey_def fprintf_stderr_def logcall_def
        version_mismatch_message_def)

theorem GetPublicJREHome_version_mismatch_witness:
  "GetPublicJREHome (with_registry ''1.4'' public_home os_none) 260 state0 =
     (None,
      state0\<lparr>stderr :=
          ''Registry key '' @ squote # ''Software'' @ bslash # ''JavaSoft'' @ bslash #
          ''Java Runtime Environment'' @ bslash # ''CurrentVersion'' @ squote # newline #
          ''has value '' @ squote # ''1.4'' @ squote # '', but '' @ squote # ''1.3'' @
          squote # '' is required.'' @ [newline],
        calls :=
          [Call_RegOpenKeyEx HKEY_LOCAL_MACHINE JRE_KEY,
           Call_RegQueryValueEx 1 ''CurrentVersion'',
           Call_RegQueryValueEx 1 ''CurrentVersion'',
           Call_RegCloseKey 1]\<rparr>)"
  using GetPublicJREHome_version_mismatch
          [of "with_registry ''1.4'' public_home os_none" 1 4 "''1.4''" 260 state0]
  by (simp add: example_defs)

text \<open>
  Claim C6. On every path through \<open>GetPublicJREHome\<close> (root key not opened,
  \<open>CurrentVersion\<close> unreadable, version mismatch, child key not opened, \<open>JavaHome\<close>
  unreadable, success) the registry handles open at the return are those open at the
  call: each handle opened on the way has been closed.
\<close>

theorem GetPublicJREHome_releases_handles:
  "open_keys (snd (GetPublicJREHome os bufsize s)) = open_keys s"
  by (simp add: GetPublicJREHome_def case_prod_beta Let_def open_keys_simps
        split: option.splits)

theorem GetPublicJREHome_releases_handles_witness:
  "GetPublicJREHome (with_registry ''1.3'' public_home os_none) 260 state0 =
     (Some public_home,
      state0\<lparr>calls :=
         [Call_RegOpenKeyEx HKEY_LOCAL_MACHINE JRE_KEY,
          Call_RegQueryValueEx 1 ''CurrentVersion'', Call_RegQueryValueEx 1 ''CurrentVersion'',
          Call_RegOpenKeyEx 1 ''1.3'',
          Call_RegQueryValueEx 2 ''JavaHome'', Call_RegQueryValueEx 2 ''JavaHome'',
          Call_RegCloseKey 1, Call_RegCloseKey 2]\<rparr>)
   \<and> open_keys (snd (GetPublicJREHome (with_registry ''1.3'' public_home os_none) 260 state0))
       = []"
  using GetPublicJREHome_releases_handles [of "with_registry ''1.3'' public_home os_none" 260 state0]
  by (simp add: GetPublicJREHome_def GetStringFromRegistry_def RegOpenKeyEx_def
        RegCloseKey_def logcall_def Let_def example_defs)

subsection \<open>The interval timer\<close>

lemma sint_times_million:
  fixes c :: jlong
  assumes "- (2 ^ 63) < sint c * 1000000" and "sint c * 1000000 < 2 ^ 63"
  shows "sint (c * 1000 * 1000) = sint c * 1000000"
proof -
  have "c * 1000 * 1000 = c * 1000000" by simp
  moreover have "sint (c * 1000000) = signed_take_bit 63 (sint c * sint (1000000 :: jlong))"
    by (simp only: sint_word_ariths) simp
  moreover have "sint (1000000 :: jlong) = 1000000" by simp
  ultimately have "sint (c * 1000 * 1000) = signed_take_bit 63 (sint c * 1000000)"
    by (simp only:)
  also have "\<dots> = sint c * 1000000"
    using assms by (intro signed_take_bit_int_eq_self) simp_all
  finally show ?thesis .
qed

lemma sdiv_abs_le: "\<bar>(k::int) sdiv l\<bar> \<le> \<bar>k\<bar>"
proof (cases "l = 0")
  case True
  then show ?thesis by (simp add: signed_divide_int_def)
next
  case False
  then have nonneg: "0 \<le> \<bar>k\<bar> div \<bar>l\<bar>" by (simp add: pos_imp_zdiv_nonneg_iff)
  have "\<bar>k\<bar> div \<bar>l\<bar> \<le> \<bar>k\<bar>"
    by (cases "k = 0") (simp_all add: int_div_le_self)
  moreover have "\<bar>k sdiv l\<bar> \<le> \<bar>k\<bar> div \<bar>l\<bar>"
    using nonneg by (auto simp: signed_divide_int_def sgn_if)
  ultimately show ?thesis by linarith
qed

lemma Counter2Micros_exact:
  assumes "counterAvailable s" and "counterInitialized s" and "counterFrequency s \<noteq> 0"
    and "- (2 ^ 63) < sint counts * 1000000" and "sint counts * 1000000 < 2 ^ 63"
  shows "\<exists>r. Counter2Micros s counts = Inr r
           \<and> sint r = (sint counts * 1000000) sdiv sint (counterFrequency s)"
proof -
  let ?q = "(sint counts * 1000000) sdiv sint (counterFrequency s)"
  have "\<bar>?q\<bar> \<le> \<bar>sint counts * 1000000\<bar>" by (rule sdiv_abs_le)
  with assms(4,5) have "- (2 ^ 63) \<le> ?q" "?q < 2 ^ 63" by linarith+
  then have sq: "sint (word_of_int ?q :: jlong) = ?q"
    by (simp add: sint_sbintrunc' signed_take_bit_int_eq_self)
  have "Counter2Micros s counts =
          Inr (word_of_int (sint (counts * 1000 * 1000) sdiv sint (counterFrequency s)))"
    using assms(1-3) by (simp add: Counter2Micros_def jlong_div_def)
  then have "Counter2Micros s counts = Inr (word_of_int ?q)"
    by (simp only: sint_times_million [OF assms(4,5)])
  with sq show ?thesis by blast
qed

lemma Counter2Micros_one_second:
  assumes "counterAvailable s" and "counterInitialized s"
    and "0 < sint (counterFrequency s)" and "sint (counterFrequency s) \<le> 9223372036854"
  shows "Counter2Micros s (counterFrequency s) = Inr 1000000"
proof -
  let ?f = "sint (counterFrequency s)"
  from assms(3) have nz: "counterFrequency s \<noteq> 0" by auto
  have m: "sint (counterFrequency s * 1000 * 1000) = ?f * 1000000"
    using assms(3,4) by (intro sint_times_million) simp_all
  have "(?f * 1000000) sdiv ?f = 1000000"
    using assms(3) by (simp add: signed_divide_int_def sgn_if)
  then have "word_of_int (sint (counterFrequency s * 1000 * 1000) sdiv ?f) = (1000000 :: jlong)"
    by (simp only: m) simp
  moreover have "Counter2Micros s (counterFrequency s) =
          Inr (word_of_int (sint (counterFrequency s * 1000 * 1000) sdiv ?f))"
    using assms(1,2) nz by (simp add: Counter2Micros_def jlong_div_def)
  ultimately show ?thesis by (simp only:)
qed

lemma calibrated_eq:
  "calibrated f =
     state0\<lparr>counterAvailable := True, counterInitialized := True, counterFrequency := f,
       calls := [Call_QueryPerformanceFrequency, Call_QueryPerformanceCounter]\<rparr>"
  by (simp add: calibrated_def CounterGet_def with_frequency_def os_none_def state0_def
        logcall_def Let_def)

text \<open>
  Claim C7 (amended). With the frequency available and not zero, and a tick count whose
  product with 1,000,000 fits a signed 64-bit integer, \<open>Counter2Micros\<close> returns
  (ticks * 1,000,000) / frequency, the quotient rounded towards zero. In particular
  \<open>Counter2Micros(f) = 1,000,000\<close> for every available frequency \<open>f\<close> with
  \<open>0 < f \<le> 9,223,372,036,854\<close>.
\<close>

theorem Counter2Micros_within_range:
  assumes "counterAvailable s" and "counterInitialized s"
  shows "(counterFrequency s \<noteq> 0
          \<and> - (2 ^ 63) < sint counts * 1000000 \<and> sint counts * 1000000 < 2 ^ 63 \<longrightarrow>
            (\<exists>r. Counter2Micros s counts = Inr r
               \<and> sint r = (sint counts * 1000000) sdiv sint (counterFrequency s)))
       \<and> (0 < sint (counterFrequency s) \<and> sint (counterFrequency s) \<le> 9223372036854 \<longrightarrow>
            Counter2Micros s (counterFrequency s) = Inr 1000000)"
  using Counter2Micros_exact [OF assms, of counts] Counter2Micros_one_second [OF assms]
  by blast

theorem Counter2Micros_within_range_witness:
  "counterAvailable (calibrated 3) \<and> counterInitialized (calibrated 3)
   \<and> Counter2Micros (calibrated 3) 2 = Inr 666666
   \<and> Counter2Micros (calibrated 3) (- 2) = Inr (- 666666)
   \<and> Counter2Micros (calibrated 3) 3 = Inr 1000000"
proof -
  have ok: "counterAvailable (calibrated 3)" "counterInitialized (calibrated 3)"
    by (simp_all add: calibrated_eq)
  have f: "counterFrequency (calibrated 3) = 3" by (simp add: calibrated_eq)
  have two: "Counter2Micros (calibrated 3) 2 = Inr 666666"
    by (simp add: calibrated_eq state0_def Counter2Micros_def jlong_div_def
          signed_divide_int_def)
  from Counter2Micros_within_range [OF ok, of 3] f
  have one: "Counter2Micros (calibrated 3) 3 = Inr 1000000" by simp
  have neg: "Counter2Micros (calibrated 3) (- 2) = Inr (- 666666)"
    by (simp add: calibrated_eq state0_def Counter2Micros_def jlong_div_def
          signed_divide_int_def)
  from ok two one neg show ?thesis by simp
qed

text \<open>
  Claim C7 as stated fails once the product with 1,000,000 leaves the signed 64-bit
  range, where it wraps around. For the frequency \<open>f = 9,223,372,036,855\<close> the result
  of \<open>Counter2Micros(f)\<close> is -999,999, not 1,000,000. For a 10 MHz counter and
  \<open>10\<^sup>1\<^sup>3\<close> ticks (about eleven and a half days) the exact quotient is \<open>10\<^sup>1\<^sup>2\<close>,
  and the result is negative.
\<close>

theorem Counter2Micros_one_second_counterexample:
  "counterAvailable (calibrated 9223372036855)
   \<and> counterFrequency (calibrated 9223372036855) = 9223372036855
   \<and> Counter2Micros (calibrated 9223372036855) 9223372036855 = Inr (- 999999)
   \<and> Counter2Micros (calibrated 9223372036855) 9223372036855 \<noteq> Inr 1000000
   \<and> counterAvailable (calibrated 10000000)
   \<and> counterFrequency (calibrated 10000000) = 10000000
   \<and> (10000000000000 * 1000000) div 10000000 = (1000000000000 :: int)
   \<and> Counter2Micros (calibrated 10000000) 10000000000000 = Inr (- 844674407370)"
  by (simp add: calibrated_eq state0_def Counter2Micros_def jlong_div_def
       signed_divide_int_def)

lemma CounterGet_initialized:
  assumes "counterInitialized s"
  shows "counterInitialized (snd (CounterGet os s))"
    and "counterAvailable (snd (CounterGet os s)) = counterAvailable s"
    and "counterFrequency (snd (CounterGet os s)) = counterFrequency s"
    and "frequency_queries (snd (CounterGet os s)) = frequency_queries s"
  using assms by (simp_all add: CounterGet_def Let_def logcall_def frequency_queries_def)

lemma CounterGet_first:
  assumes "\<not> counterInitialized s"
  shows "counterInitialized (snd (CounterGet os s))"
    and "counterAvailable (snd (CounterGet os s)) = fst (os_QueryPerformanceFrequency os)"
    and "counterFrequency (snd (CounterGet os s)) = snd (os_QueryPerformanceFrequency os)"
    and "frequency_queries (snd (CounterGet os s)) = frequency_queries s + 1"
  using assms by (simp_all add: CounterGet_def Let_def logcall_def frequency_queries_def)

lemma run_timer_calibration:
  "counterInitialized s \<Longrightarrow>
     counterInitialized (snd (run_timer os cs s))
   \<and> counterAvailable (snd (run_timer os cs s)) = counterAvailable s
   \<and> counterFrequency (snd (run_timer os cs s)) = counterFrequency s
   \<and> frequency_queries (snd (run_timer os cs s)) = frequency_queries s"
proof (induction cs arbitrary: s)
  case Nil
  then show ?case by simp
next
  case (Cons c cs)
  show ?case
  proof (cases c)
    case Do_CounterGet
    from Cons.prems have "counterInitialized (snd (CounterGet os s))"
      by (rule CounterGet_initialized)
    from Cons.IH [OF this] Cons.prems Do_CounterGet show ?thesis
      by (simp add: case_prod_beta CounterGet_initialized)
  next
    case (Do_Counter2Micros n)
    with Cons.IH [OF Cons.prems] Cons.prems show ?thesis
      by (simp add: case_prod_beta split: sum.splits)
  qed
qed

lemma run_timer_unavailable:
  "counterInitialized s \<Longrightarrow> \<not> counterAvailable s \<Longrightarrow>
     fst (run_timer os cs s) = replicate (length cs) (Inr 0) \<and> snd (run_timer os cs s) = s"
proof (induction cs)
  case Nil
  then show ?case by simp
next
  case (Cons c cs)
  show ?case
  proof (cases c)
    case Do_CounterGet
    from Cons.prems have "CounterGet os s = (0, s)"
      by (simp add: CounterGet_def)
    with Cons Do_CounterGet show ?thesis by (simp add: case_prod_beta)
  next
    case (Do_Counter2Micros n)
    from Cons.prems have "Counter2Micros s n = Inr 0"
      by (simp add: Counter2Micros_def)
    with Cons Do_Counter2Micros show ?thesis by (simp add: case_prod_beta)
  qed
qed

text \<open>
  Claim C8. If the frequency query of the first \<open>CounterGet\<close> fails, that call returns 0
  and so does every later call, in any sequence of \<open>CounterGet\<close> and \<open>Counter2Micros\<close>
  calls with any tick counts; the frequency is never queried again (the log holds the
  one query of the first call).
\<close>

theorem failed_query_is_permanent:
  assumes "\<not> counterInitialized s" and "\<not> fst (os_QueryPerformanceFrequency os)"
  shows "fst (CounterGet os s) = 0
       \<and> fst (run_timer os cs (snd (CounterGet os s))) = replicate (length cs) (Inr 0)
       \<and> frequency_queries (snd (run_timer os cs (snd (CounterGet os s)))) =
           frequency_queries s + 1"
proof -
  let ?s1 = "snd (CounterGet os s)"
  from assms have first: "fst (CounterGet os s) = 0"
    by (simp add: CounterGet_def Let_def)
  from assms have "counterInitialized ?s1" "\<not> counterAvailable ?s1"
    by (simp_all add: CounterGet_first)
  from run_timer_unavailable [OF this, of os cs] first assms(1) show ?thesis
    by (simp add: CounterGet_first)
qed

theorem failed_query_is_permanent_witness:
  "run_timer (with_frequency False 0 os_none)
     [Do_CounterGet, Do_CounterGet, Do_Counter2Micros 5, Do_CounterGet, Do_Counter2Micros 7]
     state0
   = ([Inr 0, Inr 0, Inr 0, Inr 0, Inr 0],
      state0\<lparr>counterInitialized := True, calls := [Call_QueryPerformanceFrequency]\<rparr>)"
  using failed_query_is_permanent [of state0 "with_frequency False 0 os_none"
          "[Do_CounterGet, Do_Counter2Micros 5, Do_CounterGet, Do_Counter2Micros 7]"]
  by (simp add: state0_def with_frequency_def os_none_def CounterGet_def Counter2Micros_def
        Let_def logcall_def)

text \<open>
  Claim C9. The calibration (\<open>counterAvailable\<close>, \<open>counterFrequency\<close>) is set by the
  first \<open>CounterGet\<close>, from one frequency query. Once \<open>counterInitialized\<close> is set, no
  sequence of \<open>CounterGet\<close> and \<open>Counter2Micros\<close> calls changes the calibration or
  queries the frequency again.
\<close>

theorem calibration_immutable:
  "(\<not> counterInitialized s \<longrightarrow>
       counterInitialized (snd (CounterGet os s))
     \<and> counterAvailable (snd (CounterGet os s)) = fst (os_QueryPerformanceFrequency os)
     \<and> counterFrequency (snd (CounterGet os s)) = snd (os_QueryPerformanceFrequency os)
     \<and> frequency_queries (snd (CounterGet os s)) = frequency_queries s + 1)
   \<and> (counterInitialized s \<longrightarrow>
       counterInitialized (snd (run_timer os cs s))
     \<and> counterAvailable (snd (run_timer os cs s)) = counterAvailable s
     \<and> counterFrequency (snd (run_timer os cs s)) = counterFrequency s
     \<and> frequency_queries (snd (run_timer os cs s)) = frequency_queries s)"
  using run_timer_calibration [of s os cs] CounterGet_first [of s os] by blast

theorem calibration_immutable_witness:
  "run_timer (with_ticking_counter 1000 (with_frequency True 1000 os_none))
     [Do_CounterGet, Do_CounterGet, Do_Counter2Micros 1000, Do_CounterGet] state0
   = ([Inr 0, Inr 1000, Inr 1000000, Inr 2000],
      state0\<lparr>counterAvailable := True, counterInitialized := True, counterFrequency := 1000,
        calls := [Call_QueryPerformanceFrequency, Call_QueryPerformanceCounter,
                  Call_QueryPerformanceCounter, Call_QueryPerformanceCounter]\<rparr>)"
  using calibration_immutable
          [of state0 "with_ticking_counter 1000 (with_frequency True 1000 os_none)"]
    calibration_immutable
          [of "snd (CounterGet (with_ticking_counter 1000 (with_frequency True 1000 os_none)) state0)"
              "with_ticking_counter 1000 (with_frequency True 1000 os_none)"
              "[Do_CounterGet, Do_Counter2Micros 1000, Do_CounterGet]"]
  by (simp add: state0_def with_frequency_def with_ticking_counter_def os_none_def
        CounterGet_def Counter2Micros_def Let_def logcall_def jlong_div_def
        signed_divide_int_def)

end
